theory Spec2Isabelle
  imports Main "HOL-Library.Word"
begin

unbundle bit_operations_syntax

text \<open>
  A model of the core of icmpkg, the ICMP ping and traceroute package: the wire codec
  (proto.go and the calls into \<open>golang.org/x/net/icmp\<close>), the socket engine with its
  correlation table (packet.go), and the orchestrator and the session (traceroute.go,
  ping.go). Each function of the source is a function of the same name on an explicit
  state; the goroutines are modelled by their passes, taken one at a time in the order
  that a schedule gives.
\<close>

section \<open>Values shared by the codec, the socket engine and the orchestrator\<close>

type_synonym byte = "8 word"

text \<open>
  Go's \<open>int\<close>, \<open>int64\<close> and \<open>time.Duration\<close> are modelled as \<open>int\<close>. The only
  arithmetic of the code that can leave the 64-bit range is the round-trip time of
  \<open>getTTL\<close>; there the wrap-around is written out with \<open>wrap64\<close>.
\<close>

definition wrap64 :: "int \<Rightarrow> int" where
  "wrap64 x = (x + 2 ^ 63) mod 2 ^ 64 - 2 ^ 63"

definition Millisecond :: int where
  "Millisecond = 1000000"

text \<open>
  A \<open>net.Addr\<close> interface value: the nil interface, a \<open>*net.IPAddr\<close> (a nil pointer, or
  an address given by its \<open>String()\<close> form), or some other implementation.
\<close>

datatype NetAddr = NilAddr | IPAddr "string option" | OtherAddr

text \<open>proto.go, \<open>type Proto struct\<close>. \<open>Rtt\<close> is a \<open>time.Duration\<close> (nanoseconds).\<close>

record Proto =
  TTL :: int
  ID :: int
  Seq :: int
  Addr :: NetAddr
  Ip4 :: string
  Rtt :: int

definition pingProto :: "int \<Rightarrow> int \<Rightarrow> int \<Rightarrow> NetAddr \<Rightarrow> string \<Rightarrow> Proto" where
  "pingProto ttl i s a ip = \<lparr>TTL = ttl, ID = i, Seq = s, Addr = a, Ip4 = ip, Rtt = 0\<rparr>"

definition pongProto :: "int \<Rightarrow> int \<Rightarrow> int \<Rightarrow> NetAddr \<Rightarrow> string \<Rightarrow> int \<Rightarrow> Proto" where
  "pongProto ttl i s a ip rtt = \<lparr>TTL = ttl, ID = i, Seq = s, Addr = a, Ip4 = ip, Rtt = rtt\<rparr>"

definition timeoutProto :: "int \<Rightarrow> int \<Rightarrow> int \<Rightarrow> Proto" where
  "timeoutProto ttl i s = \<lparr>TTL = ttl, ID = i, Seq = s, Addr = NilAddr, Ip4 = [], Rtt = 0\<rparr>"

text \<open>traceroute.go, \<open>aip4\<close>.\<close>

fun aip4 :: "NetAddr \<Rightarrow> string" where
  "aip4 NilAddr = []"
| "aip4 OtherAddr = []"
| "aip4 (IPAddr None) = []"
| "aip4 (IPAddr (Some s)) = s"

section \<open>Wire codec\<close>

text \<open>
  Modelled from the spec: the repository delegates encoding and parsing to the external
  package \<open>golang.org/x/net/icmp\<close> (\<open>Message.Marshal\<close>, \<open>ParseMessage\<close>), which is
  not under src/. The definitions of this section follow the spec's wire format (4.1 and
  6: Echo Request is type 8, code 0, with a 16-bit identifier and a 16-bit sequence and
  the RFC 792 checksum, the payload empty; Echo Reply is type 0; Time Exceeded is type 11
  and quotes the original datagram) and the behaviour of that package for ICMPv4 on
  messages of at most 64 bytes, the size of the read buffer of \<open>startRead\<close>: a message
  that short cannot carry an RFC 4884 extension, so the data of a multipart body is all
  that follows its 4-byte header. The bodies of the extended echo types 42 and 43
  (RFC 8335) are not modelled: \<open>ParseMessage\<close> reports them as unparsable. For a datagram
  of one of these types that makes no difference to the code, which ignores it either
  way; quoted inside a Time Exceeded message, a body that the package accepts makes the
  type assertion of \<open>messageRead\<close> panic where this model drops the message. No result
  below evaluates \<open>ParseMessage\<close> on those types.
\<close>

datatype MessageBody =
    Echo int int "byte list"
  | TimeExceeded "byte list"
  | DstUnreach "byte list"
  | ParamProb "byte list"
  | RawBody "byte list"

record Message =
  Type :: int
  Code :: int
  Checksum :: int
  Body :: "MessageBody option"

definition ICMPTypeEchoReply :: int where "ICMPTypeEchoReply = 0"
definition ICMPTypeDestinationUnreachable :: int where "ICMPTypeDestinationUnreachable = 3"
definition ICMPTypeEcho :: int where "ICMPTypeEcho = 8"
definition ICMPTypeTimeExceeded :: int where "ICMPTypeTimeExceeded = 11"
definition ICMPTypeParameterProblem :: int where "ICMPTypeParameterProblem = 12"
definition ICMPTypeExtendedEchoRequest :: int where "ICMPTypeExtendedEchoRequest = 42"
definition ICMPTypeExtendedEchoReply :: int where "ICMPTypeExtendedEchoReply = 43"

definition be16 :: "byte \<Rightarrow> byte \<Rightarrow> int" where
  "be16 hi lo = 256 * uint hi + uint lo"

definition putUint16 :: "int \<Rightarrow> byte list" where
  "putUint16 v = [word_of_int ((v mod 65536) div 256), word_of_int (v mod 256)]"

fun csum_loop :: "byte list \<Rightarrow> 32 word \<Rightarrow> 32 word" where
  "csum_loop (x # y # r) s = csum_loop r (s + (push_bit 8 (ucast y) OR ucast x))"
| "csum_loop [x] s = s + ucast x"
| "csum_loop [] s = s"

definition checksum :: "byte list \<Rightarrow> 16 word" where
  "checksum b =
     (let s0 = csum_loop b 0;
          s1 = drop_bit 16 s0 + (s0 AND 0xffff);
          s2 = s1 + drop_bit 16 s1
      in NOT (ucast s2))"

text \<open>\<open>Message.Marshal(nil)\<close> of an ICMPv4 message with an Echo body without data.\<close>

definition Marshal :: "int \<Rightarrow> int \<Rightarrow> int \<Rightarrow> int \<Rightarrow> byte list" where
  "Marshal typ code i s =
     (let b = [word_of_int typ, word_of_int code, 0, 0] @ putUint16 i @ putUint16 s;
          c = checksum b
      in b[2 := (b ! 2) XOR ucast c, 3 := (b ! 3) XOR ucast (drop_bit 8 c)])"

text \<open>proto.go, \<open>(*Proto).buf\<close>: the marshalling error is ignored and cannot occur here.\<close>

definition buf :: "Proto \<Rightarrow> byte list" where
  "buf p = Marshal ICMPTypeEcho 0 (ID p) (Seq p)"

definition parseEchoBody :: "byte list \<Rightarrow> MessageBody option" where
  "parseEchoBody b =
     (if length b < 4 then None
      else Some (Echo (be16 (b ! 0) (b ! 1)) (be16 (b ! 2) (b ! 3)) (drop 4 b)))"

definition parseMultipart :: "(byte list \<Rightarrow> MessageBody) \<Rightarrow> byte list \<Rightarrow> MessageBody option" where
  "parseMultipart mk b = (if length b < 4 then None else Some (mk (drop 4 b)))"

definition ParseMessage :: "byte list \<Rightarrow> Message option" where
  "ParseMessage b =
     (if length b < 4 then None
      else
        let typ = uint (b ! 0);
            rest = drop 4 b;
            body =
              (if typ = ICMPTypeEcho \<or> typ = ICMPTypeEchoReply then parseEchoBody rest
               else if typ = ICMPTypeTimeExceeded then parseMultipart TimeExceeded rest
               else if typ = ICMPTypeDestinationUnreachable then parseMultipart DstUnreach rest
               else if typ = ICMPTypeParameterProblem then parseMultipart ParamProb rest
               else if typ = ICMPTypeExtendedEchoRequest \<or> typ = ICMPTypeExtendedEchoReply
                 then None
               else Some (RawBody rest))
        in case body of
             None \<Rightarrow> None
           | Some bd \<Rightarrow>
               Some \<lparr>Type = typ, Code = uint (b ! 1), Checksum = be16 (b ! 2) (b ! 3),
                     Body = Some bd\<rparr>)"

section \<open>Socket engine (packet.go)\<close>

record ttlOpt =
  ttl :: int
  unix :: int

text \<open>
  The correlation table \<open>p.m\<close>. Its key is the string \<open>fmt.Sprintf("%d-%d", id, seq)\<close>,
  which determines the pair of integers, so the pair itself is the key here.
  \<open>packetConn\<close> says whether the connection is open.
\<close>

record packet =
  m :: "int \<times> int \<Rightarrow> ttlOpt option"
  packetConn :: bool

text \<open>
  The ways in which a call does not return: the run-time panics of Go that the code can
  raise (a slice bound or an index out of range, a failed type assertion, a nil pointer
  dereference, a negative length given to \<open>make\<close>, a send on a closed channel), the
  explicit \<open>panic\<close> of \<open>listen\<close>, and a send on a nil channel, which blocks forever.
\<close>

datatype fault =
    SliceBounds | IndexRange | TypeAssertion | NilDeref | MakeSliceLen | SendOnClosed
  | ListenFailed | BlocksForever

text \<open>\<open>setTTL\<close>; \<open>now\<close> is the reading of \<open>time.Now().UnixMilli()\<close>.\<close>

definition setTTL :: "packet \<Rightarrow> int \<Rightarrow> int \<Rightarrow> int \<Rightarrow> int \<Rightarrow> packet" where
  "setTTL p now t i s = p\<lparr>m := (m p)((i, s) \<mapsto> \<lparr>ttl = t, unix = now\<rparr>)\<rparr>"

text \<open>\<open>getTTL\<close>: the result is \<open>(ttl, rtt)\<close> and the packet handler with its table updated.\<close>

definition getTTL :: "packet \<Rightarrow> int \<Rightarrow> int \<times> int \<Rightarrow> (int \<times> int) \<times> packet" where
  "getTTL p now ec =
     (case m p ec of
        None \<Rightarrow> ((0, 0), p)
      | Some opt \<Rightarrow>
          let p' = p\<lparr>m := (m p)(ec := None)\<rparr>;
              ms = wrap64 (now - unix opt);
              ms' = (if ms = 0 then 1 else ms)
          in ((ttl opt, wrap64 (ms' * Millisecond)), p'))"

text \<open>
  The closure \<open>parseEcho\<close> of \<open>messageRead\<close>, applied to a non-nil \<open>*icmp.Echo\<close> with the
  given id and seq (\<open>ParseMessage\<close> never yields a nil \<open>*icmp.Echo\<close>).
\<close>

definition parseEcho :: "packet \<Rightarrow> int \<Rightarrow> NetAddr \<Rightarrow> int \<times> int \<Rightarrow> Proto option \<times> packet" where
  "parseEcho p now srcAddr ec =
     (if fst ec > 0 then
        (case getTTL p now ec of
           ((t, rtt), p') \<Rightarrow>
             if rtt > 0
             then (Some (pongProto t (fst ec) (snd ec) srcAddr (aip4 srcAddr) rtt), p')
             else (None, p'))
      else (None, p))"

text \<open>
  The type assertion \<open>body.(*icmp.Echo)\<close> in its one-result form: it panics on a nil
  interface and on every other dynamic type.
\<close>

fun assertEcho :: "MessageBody option \<Rightarrow> fault + int \<times> int" where
  "assertEcho (Some (Echo i s d)) = Inr (i, s)"
| "assertEcho _ = Inl TypeAssertion"

text \<open>
  \<open>messageRead\<close>. \<open>PM\<close> stands for \<open>icmp.ParseMessage(1, _)\<close>, applied to the quoted
  datagram behind its first 20 bytes; the slice expression \<open>ee.Data[20:]\<close> panics when
  the data has fewer than 20 bytes. The result is a fault, or the \<open>*Proto\<close> (nil is
  \<open>None\<close>) with the updated packet handler.
\<close>

definition messageRead ::
  "(byte list \<Rightarrow> Message option) \<Rightarrow> packet \<Rightarrow> int \<Rightarrow> Message \<Rightarrow> NetAddr
     \<Rightarrow> fault + Proto option \<times> packet" where
  "messageRead PM p now msg srcAddr =
     (if Type msg = ICMPTypeEchoReply then
        (case assertEcho (Body msg) of
           Inl e \<Rightarrow> Inl e
         | Inr ec \<Rightarrow> Inr (parseEcho p now srcAddr ec))
      else if Type msg = ICMPTypeTimeExceeded then
        (case Body msg of
           Some (TimeExceeded d) \<Rightarrow>
             if length d < 20 then Inl SliceBounds
             else
               (case PM (drop 20 d) of
                  None \<Rightarrow> Inr (None, p)
                | Some msg0 \<Rightarrow>
                    (case Body msg0 of
                       None \<Rightarrow> Inr (None, p)
                     | Some bd \<Rightarrow>
                         (case assertEcho (Some bd) of
                            Inl e \<Rightarrow> Inl e
                          | Inr ec \<Rightarrow> Inr (parseEcho p now srcAddr ec))))
         | _ \<Rightarrow> Inr (None, p))
      else Inr (None, p))"

text \<open>
  One pass of the loop of \<open>startRead\<close> over a datagram of \<open>n > 0\<close> bytes read from
  \<open>srcAddr\<close>: parse it and hand the message to \<open>messageRead\<close>. A non-nil result is sent
  on the channel \<open>p.wc\<close>.
\<close>

definition startRead_msg ::
  "(byte list \<Rightarrow> Message option) \<Rightarrow> packet \<Rightarrow> int \<Rightarrow> byte list \<Rightarrow> NetAddr
     \<Rightarrow> fault + Proto option \<times> packet" where
  "startRead_msg PM p now b srcAddr =
     (if length b > 0 \<and> srcAddr \<noteq> NilAddr then
        (case PM b of
           None \<Rightarrow> Inr (None, p)
         | Some msg \<Rightarrow> messageRead PM p now msg srcAddr)
      else Inr (None, p))"


text \<open>
  \<open>newPacket\<close> with \<open>run\<close> and \<open>listen\<close>: \<open>listen\<close> panics when
  \<open>icmp.ListenPacket\<close> fails (\<open>ok\<close> is false); otherwise the handler starts with an
  empty table and its two goroutines.
\<close>

definition newPacket :: "bool \<Rightarrow> fault + packet" where
  "newPacket ok = (if ok then Inr \<lparr>m = Map.empty, packetConn = True\<rparr> else Inl ListenFailed)"

text \<open>\<open>stop\<close> on a non-nil handler: both goroutines are signalled, the connection closed.\<close>

definition stop :: "packet \<Rightarrow> packet" where
  "stop p = p\<lparr>packetConn := False\<rparr>"

text \<open>
  One pass of the loop of \<open>startWrite\<close> over the descriptor \<open>pto\<close> taken from the
  channel: when \<open>WriteTo\<close> succeeds (\<open>ok\<close>) the send instant is recorded, when it fails
  the error is logged and nothing is recorded.
\<close>

definition startWrite_one :: "packet \<Rightarrow> bool \<Rightarrow> int \<Rightarrow> Proto \<Rightarrow> packet" where
  "startWrite_one p ok now pto = (if ok then setTTL p now (TTL pto) (ID pto) (Seq pto) else p)"

section \<open>Identifier allocation (traceroute.go)\<close>

text \<open>
  The package variable \<open>icmpId = uint32(os.Getpid() & 0xffff)\<close> and \<open>nextIcmpId\<close>:
  \<open>atomic.AddUint32\<close> adds one with 32-bit wrap-around and returns the new value, which is
  reduced modulo \<open>2 << 15\<close>. The result is the new counter and the value returned.
\<close>

definition seedIcmpId :: "int \<Rightarrow> 32 word" where
  "seedIcmpId pid = word_of_int (pid AND 0xffff)"

definition nextIcmpId :: "32 word \<Rightarrow> 32 word \<times> 32 word" where
  "nextIcmpId g = (let g' = g + 1 in (g', g' mod push_bit 15 2))"

text \<open>The values returned by \<open>n\<close> successive calls, the first call first.\<close>

fun assignIds :: "nat \<Rightarrow> 32 word \<Rightarrow> 32 word list" where
  "assignIds 0 g = []"
| "assignIds (Suc n) g = (case nextIcmpId g of (g', v) \<Rightarrow> v # assignIds n g')"


section \<open>Probe orchestrator and session (traceroute.go)\<close>

text \<open>
  A channel is the queue of the values sent and not yet received, with the flag of
  \<open>close\<close>; a nil channel is \<open>None\<close>. Every channel of the code has capacity one: a
  send that finds the buffer full waits for the receiver. That wait is not modelled, a
  queue may hold more than one value.
\<close>

datatype 'a chan = Chan "'a list" bool

text \<open>
  The session. \<open>wc\<close>, \<open>rc\<close> and \<open>hc\<close> are the queues of the three channels of that
  name; \<open>tr_id\<close> is the slice \<open>id\<close> and \<open>ic\<close> the slice of the inboxes; \<open>runOnce\<close> and
  \<open>stopOnce\<close> say whether the \<open>sync.Once\<close> of that name has fired; \<open>pongHandler\<close> says
  whether a callback is bound, and \<open>handled\<close> lists the arguments of the calls made to
  it; \<open>is_traceroute\<close> is the field \<open>traceroute\<close>; \<open>icmpId\<close> is the package variable
  read by \<open>nextIcmpId\<close>. The exit signals \<open>pec\<close>, \<open>hec\<close> and \<open>cec\<close> and the wait group
  are not part of the state: a \<open>select\<close> that finds its exit signal and its data channel
  both ready may take either, so a signal does not keep a goroutine from one more pass.
\<close>

record traceroute =
  address :: string
  addr :: NetAddr
  ip4 :: string
  maxTTL :: int
  maxHop :: int
  count :: int
  writeDur :: int
  readDur :: int
  wc :: "Proto list"
  rc :: "Proto list"
  hc :: "Proto option list"
  tr_id :: "int list"
  ic :: "Proto chan option list"
  runOnce :: bool
  stopOnce :: bool
  exit :: bool
  pongHandler :: bool
  handled :: "Proto list"
  packet :: "packet option"
  is_traceroute :: bool
  icmpId :: "32 word"

text \<open>
  \<open>ip4\<close>: \<open>ParseIP s\<close> is the \<open>String()\<close> form of the address when \<open>s\<close> is an IP
  literal, \<open>ResolveIPAddr s\<close> the one of the address found by the resolver. The error of
  the resolver is dropped: its nil \<open>*net.IPAddr\<close> is returned inside a non-nil interface.
\<close>

definition ip4_fn ::
  "(string \<Rightarrow> string option) \<Rightarrow> (string \<Rightarrow> string option) \<Rightarrow> string \<Rightarrow> NetAddr \<times> string" where
  "ip4_fn ParseIP ResolveIPAddr s =
     (case ParseIP s of
        Some ip \<Rightarrow> (IPAddr (Some ip), s)
      | None \<Rightarrow> (IPAddr (ResolveIPAddr s), aip4 (IPAddr (ResolveIPAddr s))))"

text \<open>
  \<open>newTraceroute\<close>; \<open>g\<close> is the value of the package variable \<open>icmpId\<close>.
  \<open>make([]int, maxTTL)\<close> panics on a negative length.
\<close>

definition newTraceroute ::
  "(string \<Rightarrow> string option) \<Rightarrow> (string \<Rightarrow> string option) \<Rightarrow> 32 word
     \<Rightarrow> string \<Rightarrow> int \<Rightarrow> int \<Rightarrow> int \<Rightarrow> int \<Rightarrow> bool \<Rightarrow> fault + traceroute" where
  "newTraceroute ParseIP ResolveIPAddr g a mt c wd rd route =
     (if mt < 0 then Inl MakeSliceLen
      else Inr
        \<lparr>address = a,
         addr = fst (ip4_fn ParseIP ResolveIPAddr a),
         ip4 = snd (ip4_fn ParseIP ResolveIPAddr a),
         maxTTL = mt, maxHop = mt, count = c, writeDur = wd, readDur = rd,
         wc = [], rc = [], hc = [],
         tr_id = replicate (nat mt) 0,
         ic = replicate (nat mt) None,
         runOnce = False, stopOnce = False, exit = False,
         pongHandler = False, handled = [],
         packet = None, is_traceroute = route, icmpId = g\<rparr>)"

text \<open>ping.go, \<open>PingDuration\<close>, and \<open>TracerouteDuration\<close>.\<close>

definition PingDuration ::
  "(string \<Rightarrow> string option) \<Rightarrow> (string \<Rightarrow> string option) \<Rightarrow> 32 word
     \<Rightarrow> string \<Rightarrow> int \<Rightarrow> int \<Rightarrow> int \<Rightarrow> fault + traceroute" where
  "PingDuration ParseIP ResolveIPAddr g a c wd rd =
     newTraceroute ParseIP ResolveIPAddr g a 1 c wd rd False"

definition TracerouteDuration ::
  "(string \<Rightarrow> string option) \<Rightarrow> (string \<Rightarrow> string option) \<Rightarrow> 32 word
     \<Rightarrow> string \<Rightarrow> int \<Rightarrow> int \<Rightarrow> int \<Rightarrow> int \<Rightarrow> fault + traceroute" where
  "TracerouteDuration ParseIP ResolveIPAddr g a mt c wd rd =
     newTraceroute ParseIP ResolveIPAddr g a mt c wd rd True"

definition PongHandler :: "traceroute \<Rightarrow> traceroute" where
  "PongHandler tr = tr\<lparr>pongHandler := True\<rparr>"

text \<open>
  \<open>ping\<close> and \<open>handler\<close>: nothing when \<open>exit\<close> is set, a send on \<open>wc\<close> or on \<open>hc\<close>
  otherwise. \<open>handler\<close> takes the \<open>*Proto\<close> that \<open>readTTL\<close> returns, which is nil
  (\<open>None\<close>) when the inbox is closed.
\<close>

definition ping :: "traceroute \<Rightarrow> Proto \<Rightarrow> traceroute" where
  "ping tr pto = (if exit tr then tr else tr\<lparr>wc := wc tr @ [pto]\<rparr>)"

definition handler :: "traceroute \<Rightarrow> Proto option \<Rightarrow> traceroute" where
  "handler tr pto = (if exit tr then tr else tr\<lparr>hc := hc tr @ [pto]\<rparr>)"

text \<open>The wire TTL \<open>ttl0\<close> of the row with index \<open>ttl\<close>.\<close>

definition wire_ttl :: "traceroute \<Rightarrow> int \<Rightarrow> int" where
  "wire_ttl tr t = (if is_traceroute tr then t + 1 else t)"

text \<open>
  \<open>readTTL\<close>. \<open>sel\<close> is the case its \<open>select\<close> takes: \<open>Some v\<close> when the inbox
  delivers \<open>v\<close> (nil, \<open>None\<close>, from a closed inbox), \<open>None\<close> when \<open>time.After\<close> fires.
  The pacing sleep has no effect on the state.
\<close>

definition readTTL :: "traceroute \<Rightarrow> int \<Rightarrow> int \<Rightarrow> int \<Rightarrow> Proto option option \<Rightarrow> Proto option" where
  "readTTL tr t i s sel =
     (case sel of
        Some v \<Rightarrow> v
      | None \<Rightarrow> Some (timeoutProto (wire_ttl tr t) i s))"

text \<open>
  What the \<open>select\<close> of \<open>readTTL\<close> takes from the inbox \<open>ic[ttl]\<close> as it stands, and the
  inbox afterwards: the oldest value of the queue; nil at once when the inbox is closed
  and empty; the timeout when it is open and empty, or nil (a nil channel is never ready).
\<close>

fun select_ic :: "Proto chan option \<Rightarrow> Proto option option \<times> Proto chan option" where
  "select_ic None = (None, None)"
| "select_ic (Some (Chan (p # q) c)) = (Some (Some p), Some (Chan q c))"
| "select_ic (Some (Chan [] True)) = (Some None, Some (Chan [] True))"
| "select_ic (Some (Chan [] False)) = (None, Some (Chan [] False))"

text \<open>\<open>pong\<close>: the index is checked by the run time, then the value is sent on the inbox.\<close>

definition pong :: "traceroute \<Rightarrow> Proto \<Rightarrow> fault + traceroute" where
  "pong tr pto =
     (let t = (if is_traceroute tr then TTL pto - 1 else TTL pto) in
      if t < 0 \<or> int (length (ic tr)) \<le> t then Inl IndexRange
      else
        (case ic tr ! nat t of
           None \<Rightarrow> Inl BlocksForever
         | Some (Chan q True) \<Rightarrow> Inl SendOnClosed
         | Some (Chan q False) \<Rightarrow> Inr (tr\<lparr>ic := (ic tr)[nat t := Some (Chan (q @ [pto]) False)]\<rparr>)))"

text \<open>One pass of the loop of \<open>startPong\<close> over the value \<open>pto\<close> received from \<open>rc\<close>.\<close>

definition lower_maxHop :: "traceroute \<Rightarrow> Proto \<Rightarrow> traceroute" where
  "lower_maxHop tr pto =
     (if is_traceroute tr \<and> Ip4 pto = ip4 tr \<and> maxHop tr > TTL pto
      then tr\<lparr>maxHop := TTL pto\<rparr> else tr)"

definition startPong_one :: "traceroute \<Rightarrow> fault + traceroute" where
  "startPong_one tr =
     (case rc tr of
        [] \<Rightarrow> Inr tr
      | pto # q \<Rightarrow> pong (lower_maxHop (tr\<lparr>rc := q\<rparr>) pto) pto)"

text \<open>One pass of the loop of \<open>startHandler\<close> over the value received from \<open>hc\<close>.\<close>

definition startHandler_one :: "traceroute \<Rightarrow> traceroute" where
  "startHandler_one tr =
     (case hc tr of
        [] \<Rightarrow> tr
      | Some pto # q \<Rightarrow>
          if pongHandler tr then tr\<lparr>hc := q, handled := handled tr @ [pto]\<rparr> else tr\<lparr>hc := q\<rparr>
      | None # q \<Rightarrow> tr\<lparr>hc := q\<rparr>)"

text \<open>\<open>closes\<close>: every inbox that is not nil is closed.\<close>

fun close_chan :: "'a chan option \<Rightarrow> 'a chan option" where
  "close_chan None = None"
| "close_chan (Some (Chan q c)) = Some (Chan q True)"

definition closes :: "traceroute \<Rightarrow> traceroute" where
  "closes tr = tr\<lparr>ic := map close_chan (ic tr)\<rparr>"

text \<open>
  \<open>Stop\<close>: the body runs once. It sets \<open>exit\<close> and calls \<open>tr.packet.stop()\<close>, whose first
  channel send dereferences the receiver; then it signals the goroutines and closes the
  inboxes.
\<close>

definition Stop :: "traceroute \<Rightarrow> fault + traceroute" where
  "Stop tr =
     (if stopOnce tr then Inr tr
      else
        (case packet tr of
           None \<Rightarrow> Inl NilDeref
         | Some p \<Rightarrow> Inr (closes (tr\<lparr>stopOnce := True, exit := True, packet := Some (stop p)\<rparr>))))"

text \<open>
  \<open>runPing\<close>, one pass of its loop in two halves. The first half, for the index \<open>ttl\<close>:
  the loop condition, the lazy initialisation of the row, the \<open>exit\<close> check and the
  send of the first probe. When the condition fails the loop is over and nothing is
  done for the row. When \<open>exit\<close> is set, \<open>runPing\<close> closes \<open>wc\<close> and \<open>hc\<close> (not
  modelled) and returns.
\<close>

definition init_row :: "traceroute \<Rightarrow> int \<Rightarrow> fault + traceroute" where
  "init_row tr t =
     (if t < 0 \<or> int (length (tr_id tr)) \<le> t then Inl IndexRange
      else if tr_id tr ! nat t = 0 then
        (if int (length (ic tr)) \<le> t then Inl IndexRange
         else
           (case nextIcmpId (icmpId tr) of
              (g, v) \<Rightarrow>
                Inr (tr\<lparr>icmpId := g,
                        tr_id := (tr_id tr)[nat t := uint v],
                        ic := (ic tr)[nat t := Some (Chan [] False)]\<rparr>)))
      else Inr tr)"

definition runPing_send :: "traceroute \<Rightarrow> int \<Rightarrow> fault + traceroute" where
  "runPing_send tr t =
     (if t < maxHop tr then
        (case init_row tr t of
           Inl f \<Rightarrow> Inl f
         | Inr tr1 \<Rightarrow>
             if exit tr1 then Inr tr1
             else Inr (ping tr1
                    (pingProto (wire_ttl tr1 t) (tr_id tr1 ! nat t) 0 (addr tr1) (ip4 tr1))))
      else Inr tr)"

text \<open>The second half: \<open>tr.handler(tr.readTTL(ttl, id, 0))\<close>; then \<open>runTTL\<close> is started.\<close>

definition runPing_recv :: "traceroute \<Rightarrow> int \<Rightarrow> Proto option option \<Rightarrow> traceroute" where
  "runPing_recv tr t sel = handler tr (readTTL tr t (tr_id tr ! nat t) 0 sel)"

text \<open>
  \<open>runTTL\<close> from the sequence number \<open>s\<close> on, run on its own: \<open>sels s\<close> is the case
  taken by the \<open>select\<close> of the read for \<open>s\<close>. The goroutine is started by \<open>runPing\<close>
  for an index it has just used, which is therefore in range.
\<close>

function runTTL_from ::
  "traceroute \<Rightarrow> int \<Rightarrow> int \<Rightarrow> int \<Rightarrow> (int \<Rightarrow> Proto option option) \<Rightarrow> traceroute" where
  "runTTL_from tr t c s sels =
     (if s < c then
        (if exit tr then tr
         else
           runTTL_from
             (handler
                (ping tr (pingProto (wire_ttl tr t) (tr_id tr ! nat t) s (addr tr) (ip4 tr)))
                (readTTL tr t (tr_id tr ! nat t) s (sels s)))
             t c (s + 1) sels)
      else tr)"
  by pat_completeness auto
termination
  by (relation "measure (\<lambda>(tr, t, c, s, sels). nat (c - s))") auto

declare runTTL_from.simps [simp del]

definition runTTL :: "traceroute \<Rightarrow> int \<Rightarrow> int \<Rightarrow> (int \<Rightarrow> Proto option option) \<Rightarrow> traceroute" where
  "runTTL tr t c sels = runTTL_from tr t c 1 sels"

text \<open>
  A row from its initialisation to the end of its \<open>runTTL\<close>, with no \<open>Stop\<close> in
  between: the pass of \<open>runPing\<close> for the index, then \<open>runTTL(ttl, tr.count)\<close>.
\<close>

definition run_row :: "traceroute \<Rightarrow> int \<Rightarrow> (int \<Rightarrow> Proto option option) \<Rightarrow> fault + traceroute" where
  "run_row tr t sels =
     (case runPing_send tr t of
        Inl f \<Rightarrow> Inl f
      | Inr tr1 \<Rightarrow> Inr (runTTL (runPing_recv tr1 t (sels 0)) t (count tr1) sels))"

text \<open>
  The steps of the goroutines of a session, each atomic: the two halves of a pass of
  \<open>runPing\<close>; the send and the read of a pass of \<open>runTTL\<close> for a row and a sequence
  number; a pass of \<open>startWrite\<close> (with the outcome of \<open>WriteTo\<close> and the clock), of
  \<open>startRead\<close> (with the datagram, its source and the clock), of \<open>startPong\<close> and of
  \<open>startHandler\<close>; and \<open>Stop\<close>. A schedule is a list of steps; the steps are not
  tied to program counters, so the schedules of the code are among the lists.
\<close>

datatype action =
    MainSend int
  | MainRecv int
  | RowSend int int
  | RowRecv int int
  | WriteOne bool int
  | ReadOne "byte list" NetAddr int
  | PongOne
  | HandleOne
  | StopNow

text \<open>
  The read of a row with the case its \<open>select\<close> takes from the inbox as it stands,
  followed by \<open>handler\<close>; the send of a pass of \<open>runTTL\<close>; a pass of \<open>startWrite\<close> and
  of \<open>startRead\<close> on the session's packet handler. \<open>startRead\<close> reads into a buffer of
  64 bytes and sends a non-nil result on \<open>rc\<close>.
\<close>

definition recv_ic :: "traceroute \<Rightarrow> int \<Rightarrow> int \<Rightarrow> fault + traceroute" where
  "recv_ic tr t s =
     (if t < 0 \<or> int (length (ic tr)) \<le> t \<or> int (length (tr_id tr)) \<le> t then Inl IndexRange
      else
        (case select_ic (ic tr ! nat t) of
           (sel, ch) \<Rightarrow>
             Inr (handler (tr\<lparr>ic := (ic tr)[nat t := ch]\<rparr>)
                    (readTTL tr t (tr_id tr ! nat t) s sel))))"

definition row_send :: "traceroute \<Rightarrow> int \<Rightarrow> int \<Rightarrow> fault + traceroute" where
  "row_send tr t s =
     (if s < count tr then
        (if exit tr then Inr tr
         else if t < 0 \<or> int (length (tr_id tr)) \<le> t then Inl IndexRange
         else Inr (ping tr (pingProto (wire_ttl tr t) (tr_id tr ! nat t) s (addr tr) (ip4 tr))))
      else Inr tr)"

definition write_one :: "traceroute \<Rightarrow> bool \<Rightarrow> int \<Rightarrow> fault + traceroute" where
  "write_one tr ok now =
     (case packet tr of
        None \<Rightarrow> Inl NilDeref
      | Some p \<Rightarrow>
          (case wc tr of
             [] \<Rightarrow> Inr tr
           | pto # q \<Rightarrow> Inr (tr\<lparr>wc := q, packet := Some (startWrite_one p ok now pto)\<rparr>)))"

definition read_one :: "traceroute \<Rightarrow> byte list \<Rightarrow> NetAddr \<Rightarrow> int \<Rightarrow> fault + traceroute" where
  "read_one tr b srcAddr now =
     (case packet tr of
        None \<Rightarrow> Inl NilDeref
      | Some p \<Rightarrow>
          (case startRead_msg ParseMessage p now (take 64 b) srcAddr of
             Inl f \<Rightarrow> Inl f
           | Inr (None, p') \<Rightarrow> Inr (tr\<lparr>packet := Some p'\<rparr>)
           | Inr (Some pto, p') \<Rightarrow> Inr (tr\<lparr>packet := Some p', rc := rc tr @ [pto]\<rparr>)))"

fun step :: "action \<Rightarrow> traceroute \<Rightarrow> fault + traceroute" where
  "step (MainSend t) tr = runPing_send tr t"
| "step (MainRecv t) tr = recv_ic tr t 0"
| "step (RowSend t s) tr = row_send tr t s"
| "step (RowRecv t s) tr = recv_ic tr t s"
| "step (WriteOne ok now) tr = write_one tr ok now"
| "step (ReadOne b srcAddr now) tr = read_one tr b srcAddr now"
| "step PongOne tr = startPong_one tr"
| "step HandleOne tr = Inr (startHandler_one tr)"
| "step StopNow tr = Stop tr"

fun exec :: "action list \<Rightarrow> traceroute \<Rightarrow> fault + traceroute" where
  "exec [] tr = Inr tr"
| "exec (a # as) tr = (case step a tr of Inl f \<Rightarrow> Inl f | Inr tr' \<Rightarrow> exec as tr')"

text \<open>
  \<open>Run\<close>: the body runs once. It creates the packet handler, which panics when the
  socket cannot be opened (\<open>ok\<close> false), starts the goroutines, runs \<open>runPing\<close> and
  calls \<open>Stop\<close>. \<open>sched\<close> lists the steps taken by \<open>runPing\<close> and the goroutines
  until \<open>runPing\<close> returns.
\<close>

definition Run :: "bool \<Rightarrow> action list \<Rightarrow> traceroute \<Rightarrow> fault + traceroute" where
  "Run ok sched tr =
     (if runOnce tr then Inr tr
      else
        (case newPacket ok of
           Inl f \<Rightarrow> Inl f
         | Inr p \<Rightarrow>
             (case exec sched (tr\<lparr>runOnce := True, packet := Some p\<rparr>) of
                Inl f \<Rightarrow> Inl f
              | Inr tr' \<Rightarrow> Stop tr')))"

text \<open>Sequencing of calls that may not return.\<close>

definition and_then :: "fault + 'a \<Rightarrow> ('a \<Rightarrow> fault + 'b) \<Rightarrow> fault + 'b" where
  "and_then r f = (case r of Inl e \<Rightarrow> Inl e | Inr x \<Rightarrow> f x)"

text \<open>The Echo Reply that answers the probe with the given id and seq.\<close>

definition echo_reply :: "int \<Rightarrow> int \<Rightarrow> byte list" where
  "echo_reply i s = Marshal ICMPTypeEchoReply 0 i s"

text \<open>
  \<open>no_new old new\<close>: the queue \<open>new\<close> is what is left of \<open>old\<close> after some receives;
  nothing was sent in between. \<open>initialized tr u\<close>: the row with index \<open>u\<close> has its
  inbox.
\<close>

definition no_new :: "'a list \<Rightarrow> 'a list \<Rightarrow> bool" where
  "no_new old new = (length new \<le> length old \<and> new = drop (length old - length new) old)"


text \<open>
  Two resolvers for the examples: \<open>lit_ip\<close> takes every string for an IP literal,
  \<open>no_ip\<close> fails on every string.
\<close>

definition lit_ip :: "string \<Rightarrow> string option" where
  "lit_ip s = Some s"

definition no_ip :: "string \<Rightarrow> string option" where
  "no_ip s = None"


section \<open>Properties of the steps\<close>

subsection \<open>\<open>maxHop\<close>\<close>

lemma maxHop_ping [simp]: "maxHop (ping tr pto) = maxHop tr"
  by (simp add: ping_def)

lemma maxHop_handler [simp]: "maxHop (handler tr po) = maxHop tr"
  by (simp add: handler_def)

lemma init_row_fields:
  "init_row tr t = Inr tr1 \<Longrightarrow>
   maxHop tr1 = maxHop tr \<and> exit tr1 = exit tr \<and> wc tr1 = wc tr \<and> hc tr1 = hc tr"
  by (auto simp: init_row_def split: if_splits prod.splits)

lemma maxHop_lower: "maxHop (lower_maxHop tr pto) \<le> maxHop tr"
  by (simp add: lower_maxHop_def)






subsection \<open>Steps after \<open>exit\<close> is set\<close>



lemma no_new_refl [simp]: "no_new xs xs"
  by (simp add: no_new_def)







subsection \<open>Initialisation of rows\<close>



lemma close_chan_None [simp]: "(close_chan c = None) = (c = None)"
  by (cases c rule: close_chan.cases) auto



section \<open>Identifier allocation: results\<close>

lemma and_65535: "(pid::int) AND 0xffff = pid mod 65536"
proof -
  have "(0xffff::int) = mask 16" by (simp add: mask_eq_exp_minus_1)
  then have "pid AND 0xffff = take_bit 16 pid" by (simp only: take_bit_eq_mask)
  then show ?thesis by (simp add: take_bit_eq_mod)
qed

lemma seed_unat: "unat (seedIcmpId pid) = nat (pid mod 65536)"
proof -
  have "uint (word_of_int (pid mod 65536) :: 32 word) = (pid mod 65536) mod 2 ^ 32"
    by (simp add: uint_word_of_int)
  also have "\<dots> = pid mod 65536"
    by (rule mod_pos_pos_trivial) (simp_all add: pos_mod_bound [THEN less_trans])
  finally show ?thesis
    by (simp add: seedIcmpId_def and_65535 unat_eq_nat_uint)
qed


lemma mod_4294967296_65536: "(a::nat) mod 4294967296 mod 65536 = a mod 65536"
  by (rule mod_mod_cancel) simp

lemma mod_add_4294967296: "((a::nat) mod 4294967296 + b) mod 65536 = (a + b) mod 65536"
proof -
  have "(a mod 4294967296 + b) mod 65536 = (a mod 4294967296 mod 65536 + b) mod 65536"
    by (rule mod_add_left_eq [symmetric])
  also have "\<dots> = (a mod 65536 + b) mod 65536"
    by (simp only: mod_4294967296_65536)
  also have "\<dots> = (a + b) mod 65536"
    by (rule mod_add_left_eq)
  finally show ?thesis .
qed

lemma nextIcmpId_val: "unat (snd (nextIcmpId g)) = (unat g + 1) mod 65536"
  by (simp add: nextIcmpId_def Let_def unat_mod unat_word_ariths mod_4294967296_65536)

lemma assignIds_Suc: "assignIds (Suc n) g = snd (nextIcmpId g) # assignIds n (g + 1)"
  by (simp add: nextIcmpId_def Let_def)

lemma assignIds_nth:
  "k < n \<Longrightarrow> unat (assignIds n g ! k) = (unat g + k + 1) mod 65536"
proof (induction n arbitrary: g k)
  case 0
  then show ?case by simp
next
  case (Suc n)
  show ?case
  proof (cases k)
    case 0
    then show ?thesis using nextIcmpId_val [of g] by (simp only: assignIds_Suc) simp
  next
    case (Suc j)
    with Suc.prems have "j < n" by simp
    from Suc.IH [OF this, of "g + 1"]
    have "unat (assignIds n (g + 1) ! j) = ((unat g + 1) mod 4294967296 + (j + 1)) mod 65536"
      by (simp add: unat_word_ariths)
    also have "\<dots> = (unat g + 1 + (j + 1)) mod 65536"
      by (rule mod_add_4294967296)
    finally show ?thesis using Suc by (simp only: assignIds_Suc) (simp add: add.commute add.left_commute)
  qed
qed

text \<open>
  Claim C9. Every value returned by \<open>nextIcmpId\<close> is below \<open>2 ^ 16\<close>; a call adds one
  to the counter and returns the new counter modulo \<open>2 ^ 16\<close>; with the counter seeded by
  \<open>pid & 0xffff\<close>, the \<open>k\<close>-th assignment (counted from one) returns
  \<open>(seed + k) mod 2 ^ 16\<close>.
\<close>

theorem C9_nextIcmpId:
  "unat (snd (nextIcmpId g)) < 2 ^ 16
   \<and> fst (nextIcmpId g) = g + 1
   \<and> unat (snd (nextIcmpId g)) = (unat g + 1) mod 2 ^ 16
   \<and> (1 \<le> k \<and> k \<le> n \<longrightarrow>
        unat (assignIds n (seedIcmpId pid) ! (k - 1)) = (nat (pid mod 2 ^ 16) + k) mod 2 ^ 16
        \<and> unat (assignIds n (seedIcmpId pid) ! (k - 1)) < 2 ^ 16)"
proof -
  have v: "unat (snd (nextIcmpId g)) = (unat g + 1) mod 2 ^ 16"
    using nextIcmpId_val [of g] by simp
  have f: "fst (nextIcmpId g) = g + 1"
    by (simp add: nextIcmpId_def Let_def)
  have b: "unat (snd (nextIcmpId g)) < 2 ^ 16"
    unfolding v by simp
  have a: "unat (assignIds n (seedIcmpId pid) ! (k - 1)) = (nat (pid mod 2 ^ 16) + k) mod 2 ^ 16"
    if "1 \<le> k" "k \<le> n"
  proof -
    from that have "k - 1 < n" by simp
    from assignIds_nth [OF this, of "seedIcmpId pid"] that show ?thesis
      by (simp add: seed_unat)
  qed
  have c: "unat (assignIds n (seedIcmpId pid) ! (k - 1)) < 2 ^ 16" if "1 \<le> k" "k \<le> n"
    unfolding a [OF that] by simp
  from v f b a c show ?thesis by blast
qed

theorem C9_nextIcmpId_witness:
  "(1::nat) \<le> 3 \<and> (3::nat) \<le> 3
   \<and> unat (snd (nextIcmpId 65535)) = 0
   \<and> unat (assignIds 3 (seedIcmpId 65533) ! 2) = 0"
  using C9_nextIcmpId [of 65535 3 3 65533] by simp


section \<open>Codec and socket engine: results\<close>

subsection \<open>Round-trip time\<close>

lemma wrap64_id: "- (2 ^ 63) \<le> x \<Longrightarrow> x < 2 ^ 63 \<Longrightarrow> wrap64 x = x"
  by (simp add: wrap64_def)

lemma getTTL_hit:
  assumes "m p ec = Some opt" "0 \<le> unix opt" "unix opt < 2 ^ 43" "0 \<le> now" "now < 2 ^ 43"
  shows "getTTL p now ec =
           ((ttl opt, (if now = unix opt then 1 else now - unix opt) * Millisecond),
            p\<lparr>m := (m p)(ec := None)\<rparr>)"
proof -
  let ?d = "now - unix opt"
  from assms have d: "- (2 ^ 43) < ?d" "?d < 2 ^ 43" by simp_all
  then have w1: "wrap64 ?d = ?d" by (intro wrap64_id) simp_all
  let ?ms = "if ?d = 0 then 1 else ?d"
  from d have "- (2 ^ 43) < ?ms" "?ms < 2 ^ 43" by simp_all
  then have "- (2 ^ 43 * 1000000) < ?ms * 1000000" "?ms * 1000000 < 2 ^ 43 * 1000000"
    by simp_all
  then have w2: "wrap64 (?ms * Millisecond) = ?ms * Millisecond"
    unfolding Millisecond_def by (intro wrap64_id) simp_all
  show ?thesis
    using assms(1) w1 w2 by (simp add: getTTL_def Let_def)
qed

text \<open>
  The first reply to a probe removes its entry, so a second reply to the same probe finds
  none and yields no \<open>Proto\<close>.
\<close>

lemma getTTL_twice:
  "getTTL (snd (getTTL p now ec)) now' ec = ((0, 0), snd (getTTL p now ec))"
  by (simp add: getTTL_def Let_def split: option.splits)

lemma parseEcho_twice:
  "fst (parseEcho (snd (parseEcho p now src ec)) now' src' ec) = None"
  by (auto simp: parseEcho_def getTTL_def Let_def split: option.splits prod.splits if_splits)

text \<open>
  Claim C8, as the code has it. With the two clock readings in the range of 64-bit
  arithmetic (below \<open>2 ^ 43\<close> ms, the year 2248): when the clock has not gone back since
  the send, the round-trip time of a matched reply is \<open>max(1 ms, now - send_instant)\<close>;
  when it has, the time is the negative difference. A reply yields a \<open>Proto\<close> only in the
  first case, and its \<open>Rtt\<close> is then at least 1 ms.
\<close>

theorem C8_rtt_floor_amended:
  assumes "m p ec = Some opt" "0 \<le> unix opt" "unix opt < 2 ^ 43" "0 \<le> now" "now < 2 ^ 43"
  shows "snd (fst (getTTL p now ec)) =
           (if unix opt \<le> now then max Millisecond ((now - unix opt) * Millisecond)
            else (now - unix opt) * Millisecond)
         \<and> (case fst (parseEcho p now src ec) of
               None \<Rightarrow> True
             | Some pto \<Rightarrow> unix opt \<le> now \<and> Millisecond \<le> Rtt pto
                 \<and> Rtt pto = max Millisecond ((now - unix opt) * Millisecond))"
proof -
  note g = getTTL_hit [OF assms]
  have r: "snd (fst (getTTL p now ec)) =
           (if unix opt \<le> now then max Millisecond ((now - unix opt) * Millisecond)
            else (now - unix opt) * Millisecond)"
    unfolding g by (simp add: Millisecond_def max_def)
  have "unix opt \<le> now \<and> Millisecond \<le> Rtt pto
        \<and> Rtt pto = max Millisecond ((now - unix opt) * Millisecond)"
    if "fst (parseEcho p now src ec) = Some pto" for pto
    using that unfolding parseEcho_def g
    by (auto simp: pongProto_def Millisecond_def max_def split: if_splits)
  with r show ?thesis by (simp split: option.splits)
qed

theorem C8_rtt_floor_witness:
  "m (setTTL \<lparr>m = Map.empty, packetConn = True\<rparr> 1000 3 7 0) (7, 0) = Some \<lparr>ttl = 3, unix = 1000\<rparr>
   \<and> snd (fst (getTTL (setTTL \<lparr>m = Map.empty, packetConn = True\<rparr> 1000 3 7 0) 1000 (7, 0)))
       = Millisecond
   \<and> map_option Rtt
        (fst (parseEcho (setTTL \<lparr>m = Map.empty, packetConn = True\<rparr> 1000 3 7 0) 1000
               (IPAddr (Some ''10.0.0.3'')) (7, 0)))
       = Some Millisecond"
proof -
  let ?p = "setTTL \<lparr>m = Map.empty, packetConn = True\<rparr> 1000 3 7 0"
  have h: "m ?p (7, 0) = Some \<lparr>ttl = 3, unix = 1000\<rparr>"
    by (simp add: setTTL_def)
  have e: "fst (parseEcho ?p 1000 (IPAddr (Some ''10.0.0.3'')) (7, 0)) \<noteq> None"
    by (simp add: parseEcho_def getTTL_def setTTL_def wrap64_def Millisecond_def)
  from C8_rtt_floor_amended [OF h, of 1000 "IPAddr (Some ''10.0.0.3'')"] e h
  show ?thesis by (auto simp: Millisecond_def split: option.splits)
qed

text \<open>
  The claim as stated fails when the wall clock is set back between the send and the
  reply: sent at 5 ms, answered at 3 ms, the computed time is \<open>- 2 ms\<close>, not
  \<open>max(1 ms, - 2 ms) = 1 ms\<close>, and the reply is dropped.
\<close>

theorem C8_clock_set_back_counterexample:
  "snd (fst (getTTL (setTTL \<lparr>m = Map.empty, packetConn = True\<rparr> 5 3 7 0) 3 (7, 0)))
     = - 2 * Millisecond
   \<and> max Millisecond ((3 - 5) * Millisecond) = Millisecond
   \<and> fst (parseEcho (setTTL \<lparr>m = Map.empty, packetConn = True\<rparr> 5 3 7 0) 3
            (IPAddr (Some ''10.0.0.3'')) (7, 0)) = None"
  by (simp add: parseEcho_def getTTL_def setTTL_def wrap64_def Millisecond_def)

subsection \<open>Time Exceeded\<close>

lemma messageRead_short_quote:
  "Type msg = ICMPTypeTimeExceeded \<Longrightarrow> Body msg = Some (TimeExceeded d) \<Longrightarrow> length d < 20 \<Longrightarrow>
   messageRead PM p now msg srcAddr = Inl SliceBounds"
  by (simp add: messageRead_def ICMPTypeTimeExceeded_def ICMPTypeEchoReply_def)

lemma messageRead_quote_not_Echo:
  assumes "Type msg = ICMPTypeTimeExceeded" "Body msg = Some (TimeExceeded d)" "20 \<le> length d"
    and "PM (drop 20 d) = Some msg0" "Body msg0 = Some bd" "\<And>i s x. bd \<noteq> Echo i s x"
  shows "messageRead PM p now msg srcAddr = Inl TypeAssertion"
proof -
  from assms(6) have "assertEcho (Some bd) = Inl TypeAssertion"
    by (cases bd) auto
  with assms(1-5) show ?thesis
    by (simp add: messageRead_def ICMPTypeTimeExceeded_def ICMPTypeEchoReply_def)
qed

text \<open>
  Claim C2, on the code: the decoder of a Time Exceeded message does not return on every
  input. An 8-byte Time Exceeded message quotes no datagram, and the slice expression
  \<open>ee.Data[20:]\<close> panics; a Time Exceeded message that quotes a 20-byte IP header and a
  Destination Unreachable message gets through both parsers, and the type assertion
  \<open>msgBody.(*icmp.Echo)\<close> panics.
\<close>

theorem C2_time_exceeded_panics:
  "startRead_msg ParseMessage \<lparr>m = Map.empty, packetConn = True\<rparr> 0
     [11, 0, 0, 0, 0, 0, 0, 0] (IPAddr (Some ''10.0.0.1'')) = Inl SliceBounds
   \<and> startRead_msg ParseMessage \<lparr>m = Map.empty, packetConn = True\<rparr> 0
     ([11, 0, 0, 0, 0, 0, 0, 0] @ replicate 20 0 @ [3, 0, 0, 0, 0, 0, 0, 0])
     (IPAddr (Some ''10.0.0.1'')) = Inl TypeAssertion"
  by (simp add: startRead_msg_def ParseMessage_def parseMultipart_def messageRead_def Let_def
      ICMPTypeEcho_def ICMPTypeEchoReply_def ICMPTypeTimeExceeded_def
      ICMPTypeDestinationUnreachable_def ICMPTypeParameterProblem_def
      ICMPTypeExtendedEchoRequest_def ICMPTypeExtendedEchoReply_def)

subsection \<open>Round trip of the codec\<close>

lemma be16_putUint16:
  "0 \<le> v \<Longrightarrow> v < 65536 \<Longrightarrow> be16 (putUint16 v ! 0) (putUint16 v ! 1) = v"
  by (simp add: be16_def putUint16_def uint_word_of_int take_bit_eq_mod)

lemma Marshal_shape:
  "\<exists>c0 c1. Marshal typ code i s =
     [word_of_int typ, word_of_int code, c0, c1] @ putUint16 i @ putUint16 s"
  by (simp add: Marshal_def Let_def putUint16_def)

lemma ParseMessage_buf:
  assumes "0 \<le> ID p" "ID p < 65536" "0 \<le> Seq p" "Seq p < 65536"
  shows "\<exists>ck. ParseMessage (buf p) =
           Some \<lparr>Type = ICMPTypeEcho, Code = 0, Checksum = ck,
                 Body = Some (Echo (ID p) (Seq p) [])\<rparr>"
proof -
  obtain c0 c1 where b: "buf p = [8, 0, c0, c1] @ putUint16 (ID p) @ putUint16 (Seq p)"
    using Marshal_shape [of ICMPTypeEcho 0 "ID p" "Seq p"]
    by (auto simp: buf_def ICMPTypeEcho_def)
  have i: "be16 (putUint16 (ID p) ! 0) (putUint16 (ID p) ! 1) = ID p"
    using assms by (intro be16_putUint16)
  have s: "be16 (putUint16 (Seq p) ! 0) (putUint16 (Seq p) ! 1) = Seq p"
    using assms by (intro be16_putUint16)
  have l: "length (putUint16 v) = 2" for v by (simp add: putUint16_def)
  have "ParseMessage (buf p) =
     Some \<lparr>Type = ICMPTypeEcho, Code = 0, Checksum = be16 c0 c1,
           Body = Some (Echo (ID p) (Seq p) [])\<rparr>"
    unfolding b using i s
    by (simp add: ParseMessage_def parseEchoBody_def ICMPTypeEcho_def ICMPTypeEchoReply_def
        Let_def l nth_append putUint16_def)
  then show ?thesis by blast
qed

lemma messageRead_other_type:
  "Type msg \<noteq> ICMPTypeEchoReply \<Longrightarrow> Type msg \<noteq> ICMPTypeTimeExceeded \<Longrightarrow>
   messageRead PM pk now msg src = Inr (None, pk)"
  by (simp add: messageRead_def)

text \<open>
  Claim C4, as the code has it. For a 16-bit id and seq, \<open>icmp.ParseMessage\<close> reads back
  from the bytes of \<open>buf\<close> an Echo Request (type 8) whose body has that id and seq; the
  decoder of the receive path, \<open>startRead\<close> with \<open>messageRead\<close>, drops the message and
  leaves the correlation table as it is, since it accepts Echo Reply and Time Exceeded
  only.
\<close>

theorem C4_codec_round_trip_amended:
  assumes "0 \<le> ID p" "ID p < 65536" "0 \<le> Seq p" "Seq p < 65536"
  shows "(\<exists>ck. ParseMessage (buf p) =
           Some \<lparr>Type = ICMPTypeEcho, Code = 0, Checksum = ck,
                 Body = Some (Echo (ID p) (Seq p) [])\<rparr>)
         \<and> startRead_msg ParseMessage pk now (buf p) src = Inr (None, pk)"
proof -
  from ParseMessage_buf [OF assms] obtain ck where
    pm: "ParseMessage (buf p) =
           Some \<lparr>Type = ICMPTypeEcho, Code = 0, Checksum = ck,
                 Body = Some (Echo (ID p) (Seq p) [])\<rparr>"
    by blast
  have "startRead_msg ParseMessage pk now (buf p) src = Inr (None, pk)"
    unfolding startRead_msg_def pm
    by (simp add: messageRead_other_type ICMPTypeEcho_def ICMPTypeEchoReply_def
        ICMPTypeTimeExceeded_def)
  with pm show ?thesis by blast
qed

theorem C4_codec_round_trip_witness:
  "ParseMessage (buf (pingProto 0 258 772 (IPAddr (Some ''8.8.8.8'')) ''8.8.8.8'')) =
     Some \<lparr>Type = 8, Code = 0, Checksum = 0xF3F9, Body = Some (Echo 258 772 [])\<rparr>
   \<and> startRead_msg ParseMessage \<lparr>m = Map.empty, packetConn = True\<rparr> 0
        (buf (pingProto 0 258 772 (IPAddr (Some ''8.8.8.8'')) ''8.8.8.8''))
        (IPAddr (Some ''8.8.8.8'')) = Inr (None, \<lparr>m = Map.empty, packetConn = True\<rparr>)"
proof -
  let ?p = "pingProto 0 258 772 (IPAddr (Some ''8.8.8.8'')) ''8.8.8.8''"
  have h: "0 \<le> ID ?p" "ID ?p < 65536" "0 \<le> Seq ?p" "Seq ?p < 65536"
    by (simp_all add: pingProto_def)
  have c: "Checksum (the (ParseMessage (buf ?p))) = 0xF3F9"
    by (simp add: ParseMessage_def parseEchoBody_def buf_def Marshal_def checksum_def
        putUint16_def be16_def pingProto_def Let_def ICMPTypeEcho_def)
  from C4_codec_round_trip_amended
         [OF h, of "\<lparr>m = Map.empty, packetConn = True\<rparr>" 0 "IPAddr (Some ''8.8.8.8'')"]
  obtain ck where
    pm: "ParseMessage (buf ?p) =
           Some \<lparr>Type = ICMPTypeEcho, Code = 0, Checksum = ck,
                 Body = Some (Echo (ID ?p) (Seq ?p) [])\<rparr>"
    and d: "startRead_msg ParseMessage \<lparr>m = Map.empty, packetConn = True\<rparr> 0 (buf ?p)
              (IPAddr (Some ''8.8.8.8'')) = Inr (None, \<lparr>m = Map.empty, packetConn = True\<rparr>)"
    by blast
  from pm c have "ck = 0xF3F9" by simp
  with pm d show ?thesis by (simp add: ICMPTypeEcho_def pingProto_def)
qed

text \<open>
  The claim as stated fails: the bytes of the Echo Request with id 1 and seq 1, given to
  the decoder of the receive path while the correlation table holds the probe, are
  dropped.
\<close>

theorem C4_echo_request_dropped_counterexample:
  "startRead_msg ParseMessage (setTTL \<lparr>m = Map.empty, packetConn = True\<rparr> 1000 0 1 1) 1005
     (buf (pingProto 0 1 1 (IPAddr (Some ''8.8.8.8'')) ''8.8.8.8'')) (IPAddr (Some ''8.8.8.8''))
   = Inr (None, setTTL \<lparr>m = Map.empty, packetConn = True\<rparr> 1000 0 1 1)"
  by (simp add: startRead_msg_def ParseMessage_def parseEchoBody_def messageRead_def buf_def
      Marshal_def putUint16_def pingProto_def Let_def
      ICMPTypeEcho_def ICMPTypeEchoReply_def ICMPTypeTimeExceeded_def)


section \<open>Session: results\<close>




subsection \<open>\<open>Stop\<close> before \<open>Run\<close>\<close>

text \<open>
  Claim C10. A session as its constructor returns it has no packet handler: \<open>Stop\<close>,
  called on it before \<open>Run\<close>, calls \<open>stop\<close> on the nil handler and panics on the nil
  pointer, with or without a callback bound. \<open>Run\<close> creates the handler, and its own
  call of \<open>Stop\<close> returns.
\<close>

theorem C10_Stop_before_Run_panics:
  "0 \<le> mt \<Longrightarrow>
   \<exists>tr. newTraceroute P R g a mt c wd rd route = Inr tr
     \<and> packet tr = None
     \<and> Stop tr = Inl NilDeref
     \<and> Stop (PongHandler tr) = Inl NilDeref
     \<and> (\<exists>tr'. Run True [] tr = Inr tr' \<and> packet tr' \<noteq> None \<and> exit tr')"
  by (simp add: newTraceroute_def Stop_def PongHandler_def Run_def newPacket_def closes_def)

theorem C10_Stop_before_Run_witness:
  "(0::int) \<le> 1
   \<and> Stop (projr (PingDuration lit_ip no_ip 6 ''8.8.8.8'' 3 500 500)) = Inl NilDeref"
proof -
  have h: "(0::int) \<le> 1" by simp
  from C10_Stop_before_Run_panics [OF h, of lit_ip no_ip 6 "''8.8.8.8''" 3 500 500 False]
  show ?thesis by (auto simp: PingDuration_def)
qed

subsection \<open>Early termination at the target\<close>





subsection \<open>Observations of a row\<close>

text \<open>
  A row that runs to its end with \<open>exit\<close> unset sends \<open>max 1 count\<close> probes and hands
  as many Observations to \<open>handler\<close>, whatever its reads receive.
\<close>

lemma runTTL_from_count:
  "\<not> exit tr \<Longrightarrow>
   length (hc (runTTL_from tr t c s sels)) = length (hc tr) + nat (c - s)
   \<and> length (wc (runTTL_from tr t c s sels)) = length (wc tr) + nat (c - s)
   \<and> \<not> exit (runTTL_from tr t c s sels)"
proof (induction tr t c s sels rule: runTTL_from.induct)
  case (1 tr t c s sels)
  show ?case
  proof (cases "s < c")
    case True
    let ?tr1 = "handler (ping tr (pingProto (wire_ttl tr t) (tr_id tr ! nat t) s (addr tr) (ip4 tr)))
                  (readTTL tr t (tr_id tr ! nat t) s (sels s))"
    from "1.prems" have e: "\<not> exit ?tr1" by (simp add: handler_def ping_def)
    from "1.prems" have l: "length (hc ?tr1) = length (hc tr) + 1" "length (wc ?tr1) = length (wc tr) + 1"
      by (simp_all add: handler_def ping_def)
    from True have n: "nat (c - s) = nat (c - (s + 1)) + 1" by simp
    from "1.IH" [OF True "1.prems" e] l n True "1.prems" show ?thesis
      by (subst (1 2 3) runTTL_from.simps) simp
  next
    case False
    with "1.prems" show ?thesis by (subst (1 2 3) runTTL_from.simps) simp
  qed
qed

lemma run_row_count:
  assumes "\<not> exit tr" "0 \<le> t" "t < maxHop tr" "t < int (length (tr_id tr))" "t < int (length (ic tr))"
  shows "\<exists>tr'. run_row tr t sels = Inr tr'
           \<and> length (hc tr') = length (hc tr) + nat (max 1 (count tr))
           \<and> length (wc tr') = length (wc tr) + nat (max 1 (count tr))"
proof -
  from assms have "\<exists>tr0. init_row tr t = Inr tr0"
    by (cases "nextIcmpId (icmpId tr)") (simp add: init_row_def)
  then obtain tr0 where i: "init_row tr t = Inr tr0" ..
  from init_row_fields [OF i] assms have f: "\<not> exit tr0" "wc tr0 = wc tr" "hc tr0 = hc tr"
    by simp_all
  have c: "count tr0 = count tr"
    using i by (auto simp: init_row_def split: if_splits prod.splits)
  let ?tr1 = "ping tr0 (pingProto (wire_ttl tr0 t) (tr_id tr0 ! nat t) 0 (addr tr0) (ip4 tr0))"
  from assms i f have s: "runPing_send tr t = Inr ?tr1"
    by (simp add: runPing_send_def)
  let ?tr2 = "runPing_recv ?tr1 t (sels 0)"
  from f have e2: "\<not> exit ?tr2" and l2: "length (hc ?tr2) = length (hc tr) + 1"
      "length (wc ?tr2) = length (wc tr) + 1"
    by (simp_all add: runPing_recv_def handler_def ping_def)
  have c1: "count ?tr1 = count tr" using c by (simp add: ping_def)
  have n: "Suc (nat (count tr - 1)) = nat (max 1 (count tr))"
    by (cases "1 \<le> count tr") (simp_all add: max_def nat_diff_distrib')
  from runTTL_from_count [OF e2, of t "count tr" 1 sels] l2
  have "length (hc (runTTL ?tr2 t (count tr) sels)) = length (hc tr) + Suc (nat (count tr - 1))"
       "length (wc (runTTL ?tr2 t (count tr) sels)) = length (wc tr) + Suc (nat (count tr - 1))"
    by (simp_all add: runTTL_def)
  then have "length (hc (runTTL ?tr2 t (count tr) sels)) = length (hc tr) + nat (max 1 (count tr))"
       "length (wc (runTTL ?tr2 t (count tr) sels)) = length (wc tr) + nat (max 1 (count tr))"
    by (simp_all only: n)
  with s c1 show ?thesis by (simp add: run_row_def)
qed

text \<open>
  Claim C6, on the code: with \<open>count = 0\<close> the row of a ping session still sends the
  probe with seq 0 and, every read timing out, hands one timeout Observation to
  \<open>handler\<close>: one Observation where the configured count is zero.
\<close>

theorem C6_count_zero_one_observation:
  "(case and_then (PingDuration lit_ip no_ip 6 ''8.8.8.8'' 0 500 500)
      (\<lambda>tr. run_row tr 0 (\<lambda>s. None)) of
      Inl f \<Rightarrow> None
    | Inr tr \<Rightarrow> Some (count tr, hc tr, wc tr))
   = Some (0, [Some (timeoutProto 0 7 0)],
           [pingProto 0 7 0 (IPAddr (Some ''8.8.8.8'')) ''8.8.8.8''])"
  by code_simp

subsection \<open>Setup failures\<close>

lemma Run_listen_fails: "\<not> runOnce tr \<Longrightarrow> Run False sched tr = Inl ListenFailed"
  by (simp add: Run_def newPacket_def)

lemma unresolved_session:
  assumes "ParseIP a = None" "ResolveIPAddr a = None" "1 \<le> mt"
  shows "\<exists>tr0 tr'. newTraceroute ParseIP ResolveIPAddr g a mt c wd rd route = Inr tr0
          \<and> addr tr0 = IPAddr None \<and> ip4 tr0 = []
          \<and> Run True [MainSend 0, WriteOne False now, MainRecv 0, HandleOne] (PongHandler tr0)
              = Inr tr'
          \<and> handled tr' = [timeoutProto (if route then 1 else 0) (uint (snd (nextIcmpId g))) 0]"
proof -
  from assms(3) obtain n where n: "nat mt = Suc n" by (cases "nat mt") auto
  obtain g' v where g: "nextIcmpId g = (g', v)" by (cases "nextIcmpId g")
  from assms n g show ?thesis
    by (simp add: newTraceroute_def ip4_fn_def PongHandler_def Run_def newPacket_def
        runPing_send_def init_row_def ping_def wire_ttl_def write_one_def startWrite_one_def
        recv_ic_def readTTL_def handler_def startHandler_one_def Stop_def closes_def)
qed

text \<open>
  Claim C3, as the code has it. When the socket cannot be opened, \<open>Run\<close> panics in
  \<open>listen\<close> before any step of the session is taken. When the target is no IP literal
  and cannot be resolved, nothing is raised: the constructor returns a session with a
  nil address and an empty ip4, \<open>Run\<close> goes on, the probe of row 0 is handed to the
  socket engine, its write fails, the read times out and the callback receives a
  timeout Observation.
\<close>

theorem C3_setup_amended:
  "(\<not> runOnce tr \<longrightarrow> Run False sched tr = Inl ListenFailed)
   \<and> (ParseIP a = None \<and> ResolveIPAddr a = None \<and> 1 \<le> mt \<longrightarrow>
       (\<exists>tr0 tr'. newTraceroute ParseIP ResolveIPAddr g a mt c wd rd route = Inr tr0
          \<and> addr tr0 = IPAddr None \<and> ip4 tr0 = []
          \<and> Run True [MainSend 0, WriteOne False now, MainRecv 0, HandleOne] (PongHandler tr0)
              = Inr tr'
          \<and> handled tr' = [timeoutProto (if route then 1 else 0) (uint (snd (nextIcmpId g))) 0]))"
  using Run_listen_fails [of tr sched]
    unresolved_session [of ParseIP a ResolveIPAddr mt g c wd rd route now]
  by blast

theorem C3_setup_witness:
  "\<not> runOnce (projr (PingDuration no_ip no_ip 6 ''no.such.host'' 3 500 500))
   \<and> no_ip ''no.such.host'' = None \<and> (1::int) \<le> 1
   \<and> Run False [MainSend 0, WriteOne False 1000, MainRecv 0, HandleOne]
        (projr (PingDuration no_ip no_ip 6 ''no.such.host'' 3 500 500)) = Inl ListenFailed
   \<and> map_option handled
        (case Run True [MainSend 0, WriteOne False 1000, MainRecv 0, HandleOne]
           (PongHandler (projr (PingDuration no_ip no_ip 6 ''no.such.host'' 3 500 500))) of
           Inl f \<Rightarrow> None | Inr tr' \<Rightarrow> Some tr')
       = Some [timeoutProto 0 7 0]"
proof -
  let ?S = "projr (PingDuration no_ip no_ip 6 ''no.such.host'' 3 500 500)"
  let ?sched = "[MainSend 0, WriteOne False 1000, MainRecv 0, HandleOne]"
  have r: "\<not> runOnce ?S" by (simp add: PingDuration_def newTraceroute_def)
  have n: "no_ip ''no.such.host'' = None" by (simp add: no_ip_def)
  have v: "uint (snd (nextIcmpId 6)) = 7" by (simp add: nextIcmpId_def)
  from C3_setup_amended [of ?S ?sched no_ip "''no.such.host''" no_ip 1 6 3 500 500 False 1000] r n
  have 1: "Run False ?sched ?S = Inl ListenFailed"
    and 2: "\<exists>tr0 tr'. newTraceroute no_ip no_ip 6 ''no.such.host'' 1 3 500 500 False = Inr tr0
          \<and> addr tr0 = IPAddr None \<and> ip4 tr0 = []
          \<and> Run True ?sched (PongHandler tr0) = Inr tr'
          \<and> handled tr' = [timeoutProto 0 7 0]"
    by (simp_all add: v)
  from 2 have 3: "map_option handled
        (case Run True ?sched (PongHandler ?S) of Inl f \<Rightarrow> None | Inr tr' \<Rightarrow> Some tr')
       = Some [timeoutProto 0 7 0]"
    by (auto simp: PingDuration_def)
  from r n 1 3 show ?thesis by simp
qed

text \<open>
  The claim as stated fails for a target that cannot be resolved: the traceroute to
  \<open>no.such.host\<close> is built and runs without an error, and emits a timeout Observation.
\<close>

theorem C3_unresolved_target_counterexample:
  "(case and_then (TracerouteDuration no_ip no_ip 6 ''no.such.host'' 1 1 500 500)
      (\<lambda>tr. Run True [MainSend 0, WriteOne False 1000, MainRecv 0, HandleOne]
         (PongHandler tr)) of
      Inl f \<Rightarrow> None
    | Inr tr \<Rightarrow> Some (addr tr, ip4 tr, handled tr))
   = Some (IPAddr None, [], [timeoutProto 1 7 0])"
  by code_simp

subsection \<open>A reply after the timeout\<close>

text \<open>
  Claim C1, on the code: a ping session with two probes. The probe with seq 0 is written
  at 1000 ms, its read times out and the timeout Observation for (7, 0) goes to the
  callback; the probe with seq 1 is written at 1500 ms; the reply to the first probe
  arrives at 1600 ms, finds its entry still in the table and is put into the inbox of
  the row; the read for seq 1 takes it. The callback has received two Observations
  carrying (7, 0): the timeout and the reply.
\<close>

theorem C1_late_reply_reported_twice:
  "(case and_then (PingDuration lit_ip no_ip 6 ''8.8.8.8'' 2 500 500)
      (\<lambda>tr. Run True
         [MainSend 0, WriteOne True 1000, MainRecv 0, HandleOne,
          RowSend 0 1, WriteOne True 1500,
          ReadOne (echo_reply 7 0) (IPAddr (Some ''8.8.8.8'')) 1600, PongOne,
          RowRecv 0 1, HandleOne]
         (PongHandler tr)) of
      Inl f \<Rightarrow> None
    | Inr tr \<Rightarrow> Some (handled tr))
   = Some [timeoutProto 0 7 0,
           pongProto 0 7 0 (IPAddr (Some ''8.8.8.8'')) ''8.8.8.8'' (600 * Millisecond)]"
  by code_simp


end
